theory Spec2Isabelle
  imports Main "HOL-Library.Word"
begin

section \<open>The Manager controller: one reconciliation pass\<close>

text \<open>
  A shallow embedding of \<^verbatim>\<open>pkg/controller/manager/manager_controller.go\<close>:
  \<^verbatim>\<open>GetManager\<close> and \<^verbatim>\<open>ReconcileManager.Reconcile\<close>.

  One pass reads the cluster through the client and the helper packages, calls the status
  manager, and at the end writes through the component handler and the status client.
  Every read of the pass happens before its first write, so the reads are the fields of an
  environment record: one field per call site, holding what that call returns on the
  cluster state the pass runs against. The writes thread an abstract cluster state
  \<open>'w\<close>. The calls on the status manager, on the component handler and on the status
  client are recorded, in order, in a trace.
\<close>

subsection \<open>Errors, durations, the scheduler's result\<close>

text \<open>
  A Go \<^verbatim>\<open>error\<close>: what \<^verbatim>\<open>errors.IsNotFound\<close> answers on it and its
  \<^verbatim>\<open>Error()\<close> text. \<^verbatim>\<open>fmt.Errorf\<close> builds an error that is not a not-found
  status error.
\<close>

datatype error = Error (IsNotFound: bool) (ErrorText: string)

definition Errorf :: "string \<Rightarrow> error" where
  "Errorf msg = Error False msg"

text \<open>\<^verbatim>\<open>time.Duration\<close> is a signed 64-bit count of nanoseconds.\<close>

type_synonym Duration = "64 word"

definition Second :: Duration where
  "Second = 1000000000"

definition Hour :: Duration where
  "Hour = 3600 * Second"

record Result =
  Requeue :: bool
  RequeueAfter :: Duration

text \<open>\<^verbatim>\<open>reconcile.Result{}\<close>\<close>

definition emptyResult :: Result where
  "emptyResult = \<lparr>Requeue = False, RequeueAfter = 0\<rparr>"

text \<open>\<^verbatim>\<open>reconcile.Result{RequeueAfter: d}\<close>\<close>

definition requeueAfter :: "Duration \<Rightarrow> Result" where
  "requeueAfter d = \<lparr>Requeue = False, RequeueAfter = d\<rparr>"

subsection \<open>Resources\<close>

text \<open>
  The resource types come from the API package, which lies outside the controller's file;
  each is a record of the fields the pass reads or writes. Values that the pass only hands
  on (license, variant, pull secrets, cluster configuration, validator configuration) are
  kept as strings naming them.
\<close>

record Auth =
  Type :: string

record Manager =
  SpecAuth :: "Auth option"
  StatusState :: string

text \<open>
  Modelled from the spec: \<^verbatim>\<open>operatorv1.AuthTypeToken\<close> and
  \<^verbatim>\<open>operatorv1.TigeraStatusReady\<close> are declared in the API package; the values are
  the single supported auth mode that the message of \<^verbatim>\<open>GetManager\<close> names and the
  Ready state of the spec.
\<close>

definition AuthTypeToken :: string where
  "AuthTypeToken = ''Token''"

definition TigeraStatusReady :: string where
  "TigeraStatusReady = ''Ready''"

text \<open>
  A parsed certificate and the contents of a secret's data field. The Go code holds
  PEM bytes; the model holds what they decode to.
\<close>

record Certificate =
  DNSNames :: "string list"
  NotBefore :: int
  NotAfter :: int
  SelfSigned :: bool

datatype bytes = Raw string | KeyPEM string | CertPEM Certificate

record Secret =
  SecretName :: string
  Data :: "string \<rightharpoonup> bytes"

record InstallationSpec =
  CertificateManagement :: "string option"
  ControlPlaneReplicas :: "32 word option"

record ComplianceCR =
  ComplianceState :: string

record AuthenticationCR =
  AuthenticationState :: string

record ManagerConfiguration =
  KeyValidatorConfig :: string
  ESSecrets :: "Secret list"
  KibanaSecrets :: "Secret list"
  ComplianceServerCertSecret :: "Secret option"
  PacketCaptureServerCertSecret :: "Secret option"
  PrometheusCertSecret :: "Secret option"
  ESClusterConfig :: string
  TLSKeyPair :: "Secret option"
  PullSecrets :: "Secret list"
  Openshift :: bool
  Installation :: InstallationSpec
  ManagementCluster :: "string option"
  TunnelSecret :: "Secret option"
  InternalTrafficSecret :: "Secret option"
  ClusterDomain :: string
  ESLicenseType :: string
  Replicas :: "32 word option"

text \<open>
  A component of the desired object set: the passthrough of a secret
  (\<^verbatim>\<open>render.NewPassthrough\<close>) or what \<^verbatim>\<open>render.Manager\<close> returns, named by a
  string.
\<close>

datatype component = NewPassthrough Secret | Rendered string

subsection \<open>The reconciler and its environment\<close>

text \<open>
  The fields of \<^verbatim>\<open>ReconcileManager\<close> that are plain data. \<open>licenseAPIReady\<close>
  is what \<^verbatim>\<open>r.licenseAPIReady.IsReady()\<close> answers during the pass. The client and
  the status manager are the environment and the trace.
\<close>

record ReconcileManager =
  provider :: string
  clusterDomain :: string
  licenseAPIReady :: bool

text \<open>
  Names that the render, common and core packages declare; they are parameters of the model.
\<close>

record Names =
  OperatorNamespace :: string
  ProviderOpenShift :: string
  ManagerNamespace :: string
  ManagerServiceName :: string
  ManagerTLSSecretName :: string
  ManagerSecretKeyName :: string
  ManagerSecretCertName :: string
  ManagerInternalSecretCertName :: string
  ManagerInternalTLSSecretName :: string
  ComplianceServerCertSecretName :: string
  PacketCaptureCertSecret :: string
  PrometheusTLSSecretName :: string
  ComplianceFeature :: string

text \<open>
  What each call of the pass returns. A Go call returning \<^verbatim>\<open>(v, err)\<close> is a sum with
  the error on the left; \<^verbatim>\<open>utils.GetAuthentication\<close> is a pair, because the pass
  reads its value also when the error is a not-found error.
\<close>

record 'w env =
  names :: Names
  now :: int
  cliGetManager :: "error + Manager"
  IsAPIServerReady :: bool
  FetchLicenseKey :: "error + string"
  GetInstallation :: "error + string \<times> InstallationSpec"
  ValidateManagerCertPair :: "error + Secret option"
  GetServiceDNSNames :: "string \<Rightarrow> string \<Rightarrow> string \<Rightarrow> string list"
  generateKey :: "error + string"
  ensureExistingSecret :: "Secret \<Rightarrow> Duration \<Rightarrow> string list \<Rightarrow> error + Secret option \<times> bool"
  IsCertOperatorIssued :: "bytes option \<Rightarrow> error + bool"
  IsFeatureActive :: "string \<Rightarrow> string \<Rightarrow> bool"
  GetCompliance :: "error + ComplianceCR"
  ValidateComplianceCertPair :: "error + Secret option"
  cliGetPrometheusNamespace :: "error option"
  GetNetworkingPullSecrets :: "InstallationSpec \<Rightarrow> error + Secret list"
  GetElasticsearchClusterConfig :: "error + string"
  ElasticsearchSecrets :: "error + Secret list"
  cliGetKibanaPublicCertSecret :: "error + Secret"
  GetManagementCluster :: "error + string option"
  GetManagementClusterConnection :: "error + string option"
  cliGetTunnelSecret :: "error + Secret"
  cliGetInternalTrafficSecret :: "error + Secret"
  GetAuthentication :: "AuthenticationCR option \<times> error option"
  GetKeyValidatorConfig :: "AuthenticationCR option \<Rightarrow> string \<Rightarrow> error + string"
  GetElasticLicenseType :: "error + string"
  ValidatePacketCaptureCertPair :: "error + Secret option"
  ValidatePrometheusCertPair :: "error + Secret option"
  renderManager :: "ManagerConfiguration \<Rightarrow> error + component"
  ApplyImageSet :: "string \<Rightarrow> component \<Rightarrow> error + component"
  CreateOrUpdateOrDelete :: "component \<Rightarrow> 'w \<Rightarrow> error option \<times> 'w"
  IsAvailable :: "'w \<Rightarrow> bool"
  cliStatusUpdate :: "Manager \<Rightarrow> 'w \<Rightarrow> error option \<times> 'w"

subsection \<open>The trace and the outcome of a pass\<close>

datatype event =
    OnCRNotFound
  | OnCRFound
  | SetDegraded string string
  | ClearDegraded
  | Applied component
  | StatusUpdated Manager

record 'w outcome =
  calls :: "event list"
  result :: Result
  err :: "error option"
  world :: 'w

text \<open>
  A gate either returns from \<^verbatim>\<open>Reconcile\<close> (left: the status calls it made, the
  result and the error it returns) or hands its values to the code after it (right).
\<close>

type_synonym 'a gate = "(event list \<times> Result \<times> error option) + 'a"

definition andThen :: "'a gate \<Rightarrow> ('a \<Rightarrow> 'b gate) \<Rightarrow> 'b gate" where
  "andThen g f = (case g of Inl r \<Rightarrow> Inl r | Inr x \<Rightarrow> f x)"

text \<open>The three ways the pass returns early.\<close>

definition degradedErr :: "string \<Rightarrow> string \<Rightarrow> error \<Rightarrow> 'a gate" where
  "degradedErr reason msg e = Inl ([SetDegraded reason msg], emptyResult, Some e)"

definition degradedNil :: "string \<Rightarrow> string \<Rightarrow> 'a gate" where
  "degradedNil reason msg = Inl ([SetDegraded reason msg], emptyResult, None)"

definition degradedRequeue :: "string \<Rightarrow> string \<Rightarrow> Duration \<Rightarrow> 'a gate" where
  "degradedRequeue reason msg d = Inl ([SetDegraded reason msg], requeueAfter d, None)"

text \<open>
  \<^verbatim>\<open>%q\<close> of \<^verbatim>\<open>fmt.Sprintf\<close> on a string of printable ASCII: double quotes around
  it, a backslash before each double quote and backslash.
\<close>

definition quoted :: "string \<Rightarrow> string" where
  "quoted s = [CHR 0x22] @ concat (map (\<lambda>c. if c = CHR 0x22 \<or> c = CHR 0x5C then [CHR 0x5C, c] else [c]) s) @ [CHR 0x22]"

subsection \<open>GetManager (lines 189 to 201)\<close>

definition authTypeError :: error where
  "authTypeError =
     Errorf (''auth types other than 'Token' can no longer be configured using the Manager CR, '' @
             ''please use the Authentication CR instead'')"

definition GetManager :: "'w env \<Rightarrow> error + Manager" where
  "GetManager env =
     (case cliGetManager env of
        Inl e \<Rightarrow> Inl e
      | Inr instance \<Rightarrow>
          (case SpecAuth instance of
             None \<Rightarrow> Inr instance
           | Some auth \<Rightarrow>
               if Type auth \<noteq> AuthTypeToken
               then Inl authTypeError
               else Inr instance))"

subsection \<open>The gates of Reconcile, in source order\<close>

text \<open>Lines 225 to 228.\<close>

definition apiServerGate :: "'w env \<Rightarrow> unit gate" where
  "apiServerGate env =
     (if \<not> IsAPIServerReady env
      then degradedNil ''Waiting for Tigera API server to be ready'' ''''
      else Inr ())"

text \<open>Lines 230 to 233.\<close>

definition licenseReadyGate :: "ReconcileManager \<Rightarrow> unit gate" where
  "licenseReadyGate r =
     (if \<not> licenseAPIReady r
      then degradedRequeue ''Waiting for LicenseKeyAPI to be ready'' '''' (10 * Second)
      else Inr ())"

text \<open>Lines 235 to 243.\<close>

definition licenseGate :: "'w env \<Rightarrow> string gate" where
  "licenseGate env =
     (case FetchLicenseKey env of
        Inl e \<Rightarrow>
          if IsNotFound e
          then degradedRequeue ''License not found'' (ErrorText e) (10 * Second)
          else degradedRequeue ''Error querying license'' (ErrorText e) (10 * Second)
      | Inr license \<Rightarrow> Inr license)"

text \<open>Lines 248 to 256.\<close>

definition installationGate :: "'w env \<Rightarrow> (string \<times> InstallationSpec) gate" where
  "installationGate env =
     (case GetInstallation env of
        Inl e \<Rightarrow>
          if IsNotFound e
          then degradedErr ''Installation not found'' (ErrorText e) e
          else degradedErr ''Error querying installation'' (ErrorText e) e
      | Inr vi \<Rightarrow> Inr vi)"

text \<open>Lines 261 to 274.\<close>

definition validateManagerTLS :: "'w env \<Rightarrow> (Secret option) gate" where
  "validateManagerTLS env =
     (case ValidateManagerCertPair env of
        Inl e \<Rightarrow> degradedErr ''Error validating manager TLS certificate'' (ErrorText e) e
      | Inr tlsSecret \<Rightarrow> Inr tlsSecret)"

text \<open>
  Modelled from the spec: \<^verbatim>\<open>utils.EnsureCertificateSecret\<close> and the secret
  constructor under it are in the utils package, which lies outside the controller's file.
  With no secret passed in, a self-signed one is synthesized: its certificate carries the
  DNS names passed in as its Subject-Alternative-Name list and is valid for the duration
  passed in, from the time of synthesis. Generating the key may fail. What happens to a
  secret that exists (kept, or regenerated when its names are stale) is left to the
  environment.
\<close>

definition CreateTLSSecret ::
  "'w env \<Rightarrow> string \<Rightarrow> string \<Rightarrow> string \<Rightarrow> Duration \<Rightarrow> string list \<Rightarrow> error + Secret" where
  "CreateTLSSecret env secretName keyName certName certDuration svcDNSNames =
     (case generateKey env of
        Inl e \<Rightarrow> Inl e
      | Inr key \<Rightarrow>
          Inr \<lparr>SecretName = secretName,
               Data = [keyName \<mapsto> KeyPEM key,
                       certName \<mapsto> CertPEM \<lparr>DNSNames = svcDNSNames,
                                               NotBefore = now env,
                                               NotAfter = now env + sint certDuration,
                                               SelfSigned = True\<rparr>]\<rparr>)"

definition EnsureCertificateSecret ::
  "'w env \<Rightarrow> string \<Rightarrow> Secret option \<Rightarrow> string \<Rightarrow> string \<Rightarrow> Duration \<Rightarrow> string list
     \<Rightarrow> error + Secret option \<times> bool" where
  "EnsureCertificateSecret env secretName secret keyName certName certDuration svcDNSNames =
     (case secret of
        None \<Rightarrow>
          (case CreateTLSSecret env secretName keyName certName certDuration svcDNSNames of
             Inl e \<Rightarrow> Inl e
           | Inr s \<Rightarrow> Inr (Some s, True))
      | Some s \<Rightarrow> ensureExistingSecret env s certDuration svcDNSNames)"

text \<open>The error of line 303.\<close>

definition userProvidedSecretError :: "Names \<Rightarrow> error" where
  "userProvidedSecretError n =
     Errorf (''user provided secret '' @ ManagerNamespace n @ ''/'' @ ManagerTLSSecretName n @
             '' is not supported when certificate management is enabled'')"

text \<open>
  Lines 276 to 307. \<^verbatim>\<open>operatorManagedCertSecret\<close> starts as \<^verbatim>\<open>false\<close> and stays
  so when certificate management is delegated and there is no secret.
\<close>

definition certificateGate ::
  "ReconcileManager \<Rightarrow> 'w env \<Rightarrow> InstallationSpec \<Rightarrow> Secret option \<Rightarrow> (Secret option \<times> bool) gate" where
  "certificateGate r env installation tlsSecret =
     (case CertificateManagement installation of
        None \<Rightarrow>
          (let svcDNSNames = GetServiceDNSNames env (ManagerServiceName (names env))
                               (ManagerNamespace (names env)) (clusterDomain r);
               svcDNSNames = svcDNSNames @ [''localhost''];
               certDur = 825 * 24 * Hour
           in case EnsureCertificateSecret env (ManagerTLSSecretName (names env)) tlsSecret
                     (ManagerSecretKeyName (names env)) (ManagerSecretCertName (names env))
                     certDur svcDNSNames of
                Inl e \<Rightarrow>
                  degradedErr (''Error ensuring manager TLS certificate '' @
                               quoted (ManagerTLSSecretName (names env)) @
                               '' exists and has valid DNS names'') (ErrorText e) e
              | Inr so \<Rightarrow> Inr so)
      | Some _ \<Rightarrow>
          (case tlsSecret of
             None \<Rightarrow> Inr (None, False)
           | Some s \<Rightarrow>
               (case IsCertOperatorIssued env (Data s (ManagerInternalSecretCertName (names env))) of
                  Inl e \<Rightarrow>
                    degradedErr ''Error checking if manager TLS certificate is operator managed''
                      (ErrorText e) e
                | Inr operatorManagedCertSecret \<Rightarrow>
                    if \<not> operatorManagedCertSecret
                    then (let e = userProvidedSecretError (names env)
                          in degradedErr ''Invalid certificate configuration'' (ErrorText e) e)
                    else Inr (Some s, operatorManagedCertSecret))))"

text \<open>Lines 309 to 343.\<close>

definition complianceGate :: "'w env \<Rightarrow> string \<Rightarrow> (Secret option) gate" where
  "complianceGate env license =
     (if IsFeatureActive env license (ComplianceFeature (names env))
      then
        (case GetCompliance env of
           Inl e \<Rightarrow>
             if IsNotFound e
             then degradedErr ''Compliance not found'' (ErrorText e) e
             else degradedErr ''Error querying compliance'' (ErrorText e) e
         | Inr compliance \<Rightarrow>
             if ComplianceState compliance \<noteq> TigeraStatusReady
             then degradedNil ''Compliance is not ready''
                    (''compliance status: '' @ ComplianceState compliance)
             else
               (case ValidateComplianceCertPair env of
                  Inl e \<Rightarrow>
                    degradedErr (''Failed to retrieve '' @ ComplianceServerCertSecretName (names env))
                      (ErrorText e) e
                | Inr None \<Rightarrow>
                    degradedNil (''Waiting for secret '' @ [CHR 0x27] @
                                 ComplianceServerCertSecretName (names env) @ [CHR 0x27] @
                                 '' to become available'') ''''
                | Inr (Some s) \<Rightarrow> Inr (Some s)))
      else Inr None)"

text \<open>Lines 345 to 354.\<close>

definition prometheusNamespaceGate :: "'w env \<Rightarrow> unit gate" where
  "prometheusNamespaceGate env =
     (case cliGetPrometheusNamespace env of
        Some e \<Rightarrow>
          if IsNotFound e
          then degradedErr ''tigera-prometheus namespace does not exist''
                 ''Dependency on tigera-prometheus not satisfied'' e
          else degradedErr ''Error querying prometheus'' (ErrorText e) e
      | None \<Rightarrow> Inr ())"

text \<open>Lines 356 to 361.\<close>

definition pullSecretsGate :: "'w env \<Rightarrow> InstallationSpec \<Rightarrow> (Secret list) gate" where
  "pullSecretsGate env installation =
     (case GetNetworkingPullSecrets env installation of
        Inl e \<Rightarrow> degradedErr ''Error retrieving pull secrets'' (ErrorText e) e
      | Inr pullSecrets \<Rightarrow> Inr pullSecrets)"

text \<open>Lines 363 to 373.\<close>

definition esClusterConfigGate :: "'w env \<Rightarrow> string gate" where
  "esClusterConfigGate env =
     (case GetElasticsearchClusterConfig env of
        Inl e \<Rightarrow>
          if IsNotFound e
          then degradedNil
                 ''Elasticsearch cluster configuration is not available, waiting for it to become available''
                 (ErrorText e)
          else degradedErr ''Failed to get the elasticsearch cluster configuration'' (ErrorText e) e
      | Inr esClusterConfig \<Rightarrow> Inr esClusterConfig)"

text \<open>Lines 375 to 384.\<close>

definition esSecretsGate :: "'w env \<Rightarrow> (Secret list) gate" where
  "esSecretsGate env =
     (case ElasticsearchSecrets env of
        Inl e \<Rightarrow>
          if IsNotFound e
          then degradedNil
                 ''Elasticsearch secrets are not available yet, waiting until they become available''
                 (ErrorText e)
          else degradedErr ''Failed to get Elasticsearch credentials'' (ErrorText e) e
      | Inr esSecrets \<Rightarrow> Inr esSecrets)"

text \<open>Lines 386 to 391.\<close>

definition kibanaGate :: "'w env \<Rightarrow> Secret gate" where
  "kibanaGate env =
     (case cliGetKibanaPublicCertSecret env of
        Inl e \<Rightarrow> degradedErr ''Failed to read Kibana public cert secret'' (ErrorText e) e
      | Inr kibanaPublicCertSecret \<Rightarrow> Inr kibanaPublicCertSecret)"

text \<open>Lines 393 to 398.\<close>

definition managementClusterGate :: "'w env \<Rightarrow> (string option) gate" where
  "managementClusterGate env =
     (case GetManagementCluster env of
        Inl e \<Rightarrow> degradedErr ''Error reading ManagementCluster'' (ErrorText e) e
      | Inr managementCluster \<Rightarrow> Inr managementCluster)"

text \<open>Lines 400 to 405.\<close>

definition managementClusterConnectionGate :: "'w env \<Rightarrow> (string option) gate" where
  "managementClusterConnectionGate env =
     (case GetManagementClusterConnection env of
        Inl e \<Rightarrow> degradedErr ''Error reading ManagementClusterConnection'' (ErrorText e) e
      | Inr managementClusterConnection \<Rightarrow> Inr managementClusterConnection)"

text \<open>Lines 407 to 412.\<close>

definition bothTopologiesError :: error where
  "bothTopologiesError =
     Errorf ''having both a ManagementCluster and a ManagementClusterConnection is not supported''"

definition exclusiveTopologyGate :: "string option \<Rightarrow> string option \<Rightarrow> unit gate" where
  "exclusiveTopologyGate managementCluster managementClusterConnection =
     (if managementClusterConnection \<noteq> None \<and> managementCluster \<noteq> None
      then degradedErr (ErrorText bothTopologiesError) '''' bothTopologiesError
      else Inr ())"

text \<open>Lines 414 to 441.\<close>

definition hubSecretsGate :: "'w env \<Rightarrow> string option \<Rightarrow> (Secret option \<times> Secret option) gate" where
  "hubSecretsGate env managementCluster =
     (case managementCluster of
        None \<Rightarrow> Inr (None, None)
      | Some _ \<Rightarrow>
          (case cliGetTunnelSecret env of
             Inl e \<Rightarrow>
               degradedNil
                 ''Failed to check for the existence of management-cluster-connection secret''
                 (ErrorText e)
           | Inr tunnelSecret \<Rightarrow>
               (case cliGetInternalTrafficSecret env of
                  Inl e \<Rightarrow>
                    if IsNotFound e
                    then degradedNil (''Waiting for secret '' @ ManagerInternalTLSSecretName (names env) @
                                      '' in namespace '' @ OperatorNamespace (names env) @
                                      '' to be available'') ''''
                    else degradedErr (''Error fetching TLS secret '' @
                                      ManagerInternalTLSSecretName (names env) @
                                      '' in namespace '' @ OperatorNamespace (names env))
                           (ErrorText e) e
                | Inr internalTrafficSecret \<Rightarrow> Inr (Some tunnelSecret, Some internalTrafficSecret))))"

text \<open>
  Lines 443 to 452. The check of lines 449 to 452 runs when there is no error and when the
  error is a not-found error.
\<close>

definition authenticationReady :: "AuthenticationCR option \<Rightarrow> (AuthenticationCR option) gate" where
  "authenticationReady authenticationCR =
     (case authenticationCR of
        None \<Rightarrow> Inr None
      | Some a \<Rightarrow>
          if AuthenticationState a \<noteq> TigeraStatusReady
          then degradedNil ''Authentication is not ready''
                 (''authenticationCR status: '' @ AuthenticationState a)
          else Inr (Some a))"

definition authenticationGate :: "'w env \<Rightarrow> (AuthenticationCR option) gate" where
  "authenticationGate env =
     (case GetAuthentication env of
        (authenticationCR, None) \<Rightarrow> authenticationReady authenticationCR
      | (authenticationCR, Some e) \<Rightarrow>
          if \<not> IsNotFound e
          then degradedErr ''Error while fetching Authentication'' (ErrorText e) e
          else authenticationReady authenticationCR)"

text \<open>Lines 454 to 459.\<close>

definition keyValidatorGate ::
  "ReconcileManager \<Rightarrow> 'w env \<Rightarrow> AuthenticationCR option \<Rightarrow> string gate" where
  "keyValidatorGate r env authenticationCR =
     (case GetKeyValidatorConfig env authenticationCR (clusterDomain r) of
        Inl e \<Rightarrow> degradedErr ''Failed to process the authentication CR.'' (ErrorText e) e
      | Inr keyValidatorConfig \<Rightarrow> Inr keyValidatorConfig)"

text \<open>
  Lines 461 to 467. The license type is a string type; without the call it keeps its zero
  value.
\<close>

definition elasticLicenseGate :: "'w env \<Rightarrow> string option \<Rightarrow> string gate" where
  "elasticLicenseGate env managementClusterConnection =
     (case managementClusterConnection of
        None \<Rightarrow>
          (case GetElasticLicenseType env of
             Inl e \<Rightarrow> degradedErr ''Failed to get Elasticsearch license'' (ErrorText e) e
           | Inr elasticLicenseType \<Rightarrow> Inr elasticLicenseType)
      | Some _ \<Rightarrow> Inr '''')"

text \<open>Lines 469 to 484.\<close>

definition packetCaptureGate :: "'w env \<Rightarrow> (Secret option) gate" where
  "packetCaptureGate env =
     (case ValidatePacketCaptureCertPair env of
        Inl e \<Rightarrow>
          degradedErr (''Failed to retrieve '' @ PacketCaptureCertSecret (names env)) (ErrorText e) e
      | Inr None \<Rightarrow>
          degradedNil (''Waiting for secret '' @ [CHR 0x27] @ PacketCaptureCertSecret (names env) @
                       [CHR 0x27] @ '' to become available'') ''''
      | Inr (Some s) \<Rightarrow> Inr (Some s))"

text \<open>Lines 486 to 496.\<close>

definition prometheusCertGate :: "'w env \<Rightarrow> (Secret option) gate" where
  "prometheusCertGate env =
     (case ValidatePrometheusCertPair env of
        Inl e \<Rightarrow>
          degradedErr (''Failed to retrieve '' @ PrometheusTLSSecretName (names env)) (ErrorText e) e
      | Inr prometheusCertSecret \<Rightarrow> Inr prometheusCertSecret)"

subsection \<open>The desired object set\<close>

text \<open>Lines 498 to 501: the components before the rendered one.\<close>

definition passthroughComponents :: "Secret option \<Rightarrow> bool \<Rightarrow> component list" where
  "passthroughComponents tlsSecret operatorManagedCertSecret =
     (case tlsSecret of
        None \<Rightarrow> []
      | Some s \<Rightarrow> if operatorManagedCertSecret then [NewPassthrough s] else [])"

text \<open>Lines 508 to 512.\<close>

definition replicasFor ::
  "InstallationSpec \<Rightarrow> string option \<Rightarrow> string option \<Rightarrow> 32 word option" where
  "replicasFor installation managementCluster managementClusterConnection =
     (let replicas = ControlPlaneReplicas installation
      in if managementCluster \<noteq> None \<or> managementClusterConnection \<noteq> None
         then (let mcmReplicas = 1 in Some mcmReplicas)
         else replicas)"

text \<open>Lines 514 to 532.\<close>

definition managerCfg ::
  "ReconcileManager \<Rightarrow> 'w env \<Rightarrow> string \<Rightarrow> Secret list \<Rightarrow> Secret \<Rightarrow> Secret option \<Rightarrow> Secret option
     \<Rightarrow> Secret option \<Rightarrow> string \<Rightarrow> Secret option \<Rightarrow> Secret list \<Rightarrow> InstallationSpec
     \<Rightarrow> string option \<Rightarrow> string option \<Rightarrow> Secret option \<Rightarrow> Secret option \<Rightarrow> string
     \<Rightarrow> ManagerConfiguration" where
  "managerCfg r env keyValidatorConfig esSecrets kibanaPublicCertSecret complianceServerCertSecret
     packetCaptureServerCertSecret prometheusCertSecret esClusterConfig tlsSecret pullSecrets
     installation managementCluster managementClusterConnection tunnelSecret internalTrafficSecret
     elasticLicenseType =
     \<lparr>KeyValidatorConfig = keyValidatorConfig,
      ESSecrets = esSecrets,
      KibanaSecrets = [kibanaPublicCertSecret],
      ComplianceServerCertSecret = complianceServerCertSecret,
      PacketCaptureServerCertSecret = packetCaptureServerCertSecret,
      PrometheusCertSecret = prometheusCertSecret,
      ESClusterConfig = esClusterConfig,
      TLSKeyPair = tlsSecret,
      PullSecrets = pullSecrets,
      Openshift = (provider r = ProviderOpenShift (names env)),
      Installation = installation,
      ManagementCluster = managementCluster,
      TunnelSecret = tunnelSecret,
      InternalTrafficSecret = internalTrafficSecret,
      ClusterDomain = clusterDomain r,
      ESLicenseType = elasticLicenseType,
      Replicas = replicasFor installation managementCluster managementClusterConnection\<rparr>"

text \<open>Lines 534 to 546: rendering, then the image set.\<close>

definition renderGate :: "'w env \<Rightarrow> string \<Rightarrow> ManagerConfiguration \<Rightarrow> component gate" where
  "renderGate env variant cfg =
     (case renderManager env cfg of
        Inl e \<Rightarrow> degradedErr ''Error rendering Manager'' (ErrorText e) e
      | Inr component \<Rightarrow>
          (case ApplyImageSet env variant component of
             Inl e \<Rightarrow> degradedErr ''Error with images from ImageSet'' (ErrorText e) e
           | Inr component' \<Rightarrow> Inr component'))"

text \<open>
  Lines 225 to 548: every gate in order, then the list of components that the loop
  walks: the passthrough of the TLS secret when there is one and it is operator managed,
  then the rendered component.
\<close>

definition desiredObjectSet :: "ReconcileManager \<Rightarrow> 'w env \<Rightarrow> (component list) gate" where
  "desiredObjectSet r env =
     andThen (apiServerGate env) (\<lambda>_.
     andThen (licenseReadyGate r) (\<lambda>_.
     andThen (licenseGate env) (\<lambda>license.
     andThen (installationGate env) (\<lambda>(variant, installation).
     andThen (validateManagerTLS env) (\<lambda>tlsSecret.
     andThen (certificateGate r env installation tlsSecret) (\<lambda>(tlsSecret, operatorManagedCertSecret).
     andThen (complianceGate env license) (\<lambda>complianceServerCertSecret.
     andThen (prometheusNamespaceGate env) (\<lambda>_.
     andThen (pullSecretsGate env installation) (\<lambda>pullSecrets.
     andThen (esClusterConfigGate env) (\<lambda>esClusterConfig.
     andThen (esSecretsGate env) (\<lambda>esSecrets.
     andThen (kibanaGate env) (\<lambda>kibanaPublicCertSecret.
     andThen (managementClusterGate env) (\<lambda>managementCluster.
     andThen (managementClusterConnectionGate env) (\<lambda>managementClusterConnection.
     andThen (exclusiveTopologyGate managementCluster managementClusterConnection) (\<lambda>_.
     andThen (hubSecretsGate env managementCluster) (\<lambda>(tunnelSecret, internalTrafficSecret).
     andThen (authenticationGate env) (\<lambda>authenticationCR.
     andThen (keyValidatorGate r env authenticationCR) (\<lambda>keyValidatorConfig.
     andThen (elasticLicenseGate env managementClusterConnection) (\<lambda>elasticLicenseType.
     andThen (packetCaptureGate env) (\<lambda>packetCaptureServerCertSecret.
     andThen (prometheusCertGate env) (\<lambda>prometheusCertSecret.
     andThen (renderGate env variant
                (managerCfg r env keyValidatorConfig esSecrets kibanaPublicCertSecret
                   complianceServerCertSecret packetCaptureServerCertSecret prometheusCertSecret
                   esClusterConfig tlsSecret pullSecrets installation managementCluster
                   managementClusterConnection tunnelSecret internalTrafficSecret
                   elasticLicenseType)) (\<lambda>component.
     Inr (passthroughComponents tlsSecret operatorManagedCertSecret @ [component])
     ))))))))))))))))))))))"

subsection \<open>Applying the components and reporting\<close>

text \<open>
  Lines 549 to 554: the loop over the components. It returns the components the handler
  was called on, in call order, the error that stopped it, and the cluster state it leaves.
\<close>

fun applyComponents ::
  "(component \<Rightarrow> 'w \<Rightarrow> error option \<times> 'w) \<Rightarrow> component list \<Rightarrow> 'w
     \<Rightarrow> component list \<times> error option \<times> 'w" where
  "applyComponents h [] w = ([], None, w)"
| "applyComponents h (c # cs) w =
     (case h c w of
        (Some e, w') \<Rightarrow> ([c], Some e, w')
      | (None, w') \<Rightarrow>
          (case applyComponents h cs w' of
             (applied, e, w'') \<Rightarrow> (c # applied, e, w'')))"

text \<open>Lines 549 to 565.\<close>

definition applyAndReport :: "'w env \<Rightarrow> Manager \<Rightarrow> component list \<Rightarrow> 'w \<Rightarrow> 'w outcome" where
  "applyAndReport env instance components w =
     (case applyComponents (CreateOrUpdateOrDelete env) components w of
        (applied, Some e, w') \<Rightarrow>
          \<lparr>calls = map Applied applied @
                   [SetDegraded ''Error creating / updating resource'' (ErrorText e)],
           result = emptyResult, err = Some e, world = w'\<rparr>
      | (applied, None, w') \<Rightarrow>
          (let instance' = instance\<lparr>StatusState := TigeraStatusReady\<rparr>
           in if IsAvailable env w'
              then (case cliStatusUpdate env instance' w' of
                      (Some e, w'') \<Rightarrow>
                        \<lparr>calls = map Applied applied @ [ClearDegraded, StatusUpdated instance'],
                         result = emptyResult, err = Some e, world = w''\<rparr>
                    | (None, w'') \<Rightarrow>
                        \<lparr>calls = map Applied applied @ [ClearDegraded, StatusUpdated instance'],
                         result = emptyResult, err = None, world = w''\<rparr>)
              else \<lparr>calls = map Applied applied @ [ClearDegraded],
                    result = emptyResult, err = None, world = w'\<rparr>))"

subsection \<open>Reconcile (lines 207 to 566)\<close>

definition Reconcile :: "ReconcileManager \<Rightarrow> 'w env \<Rightarrow> 'w \<Rightarrow> 'w outcome" where
  "Reconcile r env w =
     (case GetManager env of
        Inl e \<Rightarrow>
          if IsNotFound e
          then \<lparr>calls = [OnCRNotFound], result = emptyResult, err = None, world = w\<rparr>
          else \<lparr>calls = [SetDegraded ''Error querying Manager'' (ErrorText e)],
                result = emptyResult, err = Some e, world = w\<rparr>
      | Inr instance \<Rightarrow>
          (case desiredObjectSet r env of
             Inl (cs, res, e) \<Rightarrow>
               \<lparr>calls = OnCRFound # cs, result = res, err = e, world = w\<rparr>
           | Inr components \<Rightarrow>
               (let out = applyAndReport env instance components w
                in out\<lparr>calls := OnCRFound # calls out\<rparr>)))"

subsection \<open>Reading a trace\<close>

text \<open>The components the handler was called on, and the instances written to the status
  subresource, in call order.\<close>

fun appliedComponents :: "event list \<Rightarrow> component list" where
  "appliedComponents [] = []"
| "appliedComponents (Applied c # es) = c # appliedComponents es"
| "appliedComponents (_ # es) = appliedComponents es"

fun statusWrites :: "event list \<Rightarrow> Manager list" where
  "statusWrites [] = []"
| "statusWrites (StatusUpdated m # es) = m # statusWrites es"
| "statusWrites (_ # es) = statusWrites es"

text \<open>A gate that returns early has made exactly one call, to \<^verbatim>\<open>SetDegraded\<close>.\<close>

definition oneDegraded :: "'a gate \<Rightarrow> bool" where
  "oneDegraded g =
     (case g of
        Inl ([SetDegraded reason msg], res, e) \<Rightarrow> True
      | Inl _ \<Rightarrow> False
      | Inr _ \<Rightarrow> True)"

subsection \<open>A cluster on which every gate passes\<close>

text \<open>
  Concrete values for the examples below: a standalone cluster with certificate
  management delegated, without a TLS secret yet, with every dependency in place. The
  cluster state counts the handler's successful calls.
\<close>

definition sampleNames :: Names where
  "sampleNames =
     \<lparr>OperatorNamespace = ''tigera-operator'',
      ProviderOpenShift = ''OpenShift'',
      ManagerNamespace = ''tigera-manager'',
      ManagerServiceName = ''tigera-manager'',
      ManagerTLSSecretName = ''manager-tls'',
      ManagerSecretKeyName = ''key'',
      ManagerSecretCertName = ''cert'',
      ManagerInternalSecretCertName = ''cert'',
      ManagerInternalTLSSecretName = ''internal-manager-tls'',
      ComplianceServerCertSecretName = ''tigera-compliance-server-tls'',
      PacketCaptureCertSecret = ''tigera-packetcapture-server-tls'',
      PrometheusTLSSecretName = ''calico-node-prometheus-tls'',
      ComplianceFeature = ''compliance-reports''\<rparr>"

definition sampleSecret :: "string \<Rightarrow> Secret" where
  "sampleSecret name = \<lparr>SecretName = name, Data = [''cert'' \<mapsto> Raw ''pem'']\<rparr>"

definition sampleManager :: Manager where
  "sampleManager = \<lparr>SpecAuth = None, StatusState = ''''\<rparr>"

definition sampleInstallation :: InstallationSpec where
  "sampleInstallation = \<lparr>CertificateManagement = Some ''ca'', ControlPlaneReplicas = Some 3\<rparr>"

definition sampleReconciler :: ReconcileManager where
  "sampleReconciler = \<lparr>provider = '''', clusterDomain = ''cluster.local'', licenseAPIReady = True\<rparr>"

definition sampleEnv :: "nat env" where
  "sampleEnv =
     \<lparr>names = sampleNames,
      now = 0,
      cliGetManager = Inr sampleManager,
      IsAPIServerReady = True,
      FetchLicenseKey = Inr ''license'',
      GetInstallation = Inr (''TigeraSecureEnterprise'', sampleInstallation),
      ValidateManagerCertPair = Inr None,
      GetServiceDNSNames = (\<lambda>svc ns domain. [svc, svc @ ''.'' @ ns @ ''.svc.'' @ domain]),
      generateKey = Inr ''private key'',
      ensureExistingSecret = (\<lambda>s d ns. Inr (Some s, False)),
      IsCertOperatorIssued = (\<lambda>b. Inr False),
      IsFeatureActive = (\<lambda>license feature. False),
      GetCompliance = Inl (Error True ''compliance not found''),
      ValidateComplianceCertPair = Inr None,
      cliGetPrometheusNamespace = None,
      GetNetworkingPullSecrets = (\<lambda>installation. Inr []),
      GetElasticsearchClusterConfig = Inr ''elasticsearch'',
      ElasticsearchSecrets = Inr [],
      cliGetKibanaPublicCertSecret = Inr (sampleSecret ''kibana''),
      GetManagementCluster = Inr None,
      GetManagementClusterConnection = Inr None,
      cliGetTunnelSecret = Inl (Error True ''tunnel secret not found''),
      cliGetInternalTrafficSecret = Inl (Error True ''internal secret not found''),
      GetAuthentication = (None, Some (Error True ''authentication not found'')),
      GetKeyValidatorConfig = (\<lambda>authenticationCR domain. Inr ''''),
      GetElasticLicenseType = Inr ''enterprise'',
      ValidatePacketCaptureCertPair = Inr (Some (sampleSecret ''packetcapture'')),
      ValidatePrometheusCertPair = Inr None,
      renderManager = (\<lambda>cfg. Inr (Rendered ''manager'')),
      ApplyImageSet = (\<lambda>variant component. Inr component),
      CreateOrUpdateOrDelete = (\<lambda>component w. (None, Suc w)),
      IsAvailable = (\<lambda>w. True),
      cliStatusUpdate = (\<lambda>instance w. (None, w))\<rparr>"

text \<open>
  A second cluster: the TLS secret exists and is operator issued, so the pass builds the
  passthrough and the rendered component; the handler fails on the passthrough, and the
  rendered component is not applied.
\<close>

definition failingEnv :: "nat env" where
  "failingEnv =
     sampleEnv\<lparr>ValidateManagerCertPair := Inr (Some (sampleSecret ''manager-tls'')),
               IsCertOperatorIssued := (\<lambda>b. Inr True),
               CreateOrUpdateOrDelete :=
                 (\<lambda>c w. case c of
                           NewPassthrough s \<Rightarrow> (Some (Error False ''secrets is forbidden''), w)
                         | Rendered name \<Rightarrow> (None, Suc w))\<rparr>"

text \<open>A third cluster: certificate management is not delegated and there is no TLS secret.\<close>

definition selfSignedEnv :: "nat env" where
  "selfSignedEnv =
     sampleEnv\<lparr>GetInstallation :=
                 Inr (''TigeraSecureEnterprise'', sampleInstallation\<lparr>CertificateManagement := None\<rparr>)\<rparr>"

section \<open>Properties of the pass\<close>

subsection \<open>Early returns\<close>

lemmas return_defs = degradedErr_def degradedNil_def degradedRequeue_def

lemmas gate_defs =
  GetManager_def apiServerGate_def licenseReadyGate_def licenseGate_def installationGate_def
  validateManagerTLS_def certificateGate_def complianceGate_def prometheusNamespaceGate_def
  pullSecretsGate_def esClusterConfigGate_def esSecretsGate_def kibanaGate_def
  managementClusterGate_def managementClusterConnectionGate_def exclusiveTopologyGate_def
  hubSecretsGate_def authenticationGate_def authenticationReady_def keyValidatorGate_def
  elasticLicenseGate_def packetCaptureGate_def prometheusCertGate_def renderGate_def
  passthroughComponents_def return_defs andThen_def

lemmas sample_defs =
  sampleEnv_def sampleManager_def sampleInstallation_def sampleReconciler_def sampleNames_def
  sampleSecret_def

lemma oneDegraded_andThen:
  "oneDegraded g \<Longrightarrow> (\<And>x. oneDegraded (f x)) \<Longrightarrow> oneDegraded (andThen g f)"
  by (cases g) (simp_all add: andThen_def oneDegraded_def)

lemma oneDegraded_Inr [simp]: "oneDegraded (Inr x)"
  by (simp add: oneDegraded_def)

lemma oneDegraded_returns [simp]:
  "oneDegraded (degradedErr reason msg e)"
  "oneDegraded (degradedNil reason msg)"
  "oneDegraded (degradedRequeue reason msg d)"
  by (simp_all add: oneDegraded_def return_defs)

lemma oneDegraded_Inl:
  "oneDegraded (Inl (cs, res, e) :: 'a gate) \<Longrightarrow> \<exists>reason msg. cs = [SetDegraded reason msg]"
  by (auto simp: oneDegraded_def split: list.splits event.splits)

lemma apiServerGate_shape: "oneDegraded (apiServerGate env)"
  by (simp add: apiServerGate_def)

lemma licenseReadyGate_shape: "oneDegraded (licenseReadyGate r)"
  by (simp add: licenseReadyGate_def)

lemma licenseGate_shape: "oneDegraded (licenseGate env)"
  by (simp add: licenseGate_def split: sum.splits)

lemma installationGate_shape: "oneDegraded (installationGate env)"
  by (simp add: installationGate_def split: sum.splits)

lemma validateManagerTLS_shape: "oneDegraded (validateManagerTLS env)"
  by (simp add: validateManagerTLS_def split: sum.splits)

lemma certificateGate_shape: "oneDegraded (certificateGate r env installation tlsSecret)"
  by (simp add: certificateGate_def Let_def split: sum.splits option.splits)

lemma complianceGate_shape: "oneDegraded (complianceGate env license)"
  by (simp add: complianceGate_def split: sum.splits option.splits)

lemma prometheusNamespaceGate_shape: "oneDegraded (prometheusNamespaceGate env)"
  by (simp add: prometheusNamespaceGate_def split: option.splits)

lemma pullSecretsGate_shape: "oneDegraded (pullSecretsGate env installation)"
  by (simp add: pullSecretsGate_def split: sum.splits)

lemma esClusterConfigGate_shape: "oneDegraded (esClusterConfigGate env)"
  by (simp add: esClusterConfigGate_def split: sum.splits)

lemma esSecretsGate_shape: "oneDegraded (esSecretsGate env)"
  by (simp add: esSecretsGate_def split: sum.splits)

lemma kibanaGate_shape: "oneDegraded (kibanaGate env)"
  by (simp add: kibanaGate_def split: sum.splits)

lemma managementClusterGate_shape: "oneDegraded (managementClusterGate env)"
  by (simp add: managementClusterGate_def split: sum.splits)

lemma managementClusterConnectionGate_shape: "oneDegraded (managementClusterConnectionGate env)"
  by (simp add: managementClusterConnectionGate_def split: sum.splits)

lemma exclusiveTopologyGate_shape: "oneDegraded (exclusiveTopologyGate mc mcc)"
  by (simp add: exclusiveTopologyGate_def)

lemma hubSecretsGate_shape: "oneDegraded (hubSecretsGate env mc)"
  by (simp add: hubSecretsGate_def split: sum.splits option.splits)

lemma authenticationReady_shape: "oneDegraded (authenticationReady authenticationCR)"
  by (simp add: authenticationReady_def split: option.splits)

lemma authenticationGate_shape: "oneDegraded (authenticationGate env)"
  by (simp add: authenticationGate_def authenticationReady_shape split: prod.splits option.splits)

lemma keyValidatorGate_shape: "oneDegraded (keyValidatorGate r env authenticationCR)"
  by (simp add: keyValidatorGate_def split: sum.splits)

lemma elasticLicenseGate_shape: "oneDegraded (elasticLicenseGate env mcc)"
  by (simp add: elasticLicenseGate_def split: sum.splits option.splits)

lemma packetCaptureGate_shape: "oneDegraded (packetCaptureGate env)"
  by (simp add: packetCaptureGate_def split: sum.splits option.splits)

lemma prometheusCertGate_shape: "oneDegraded (prometheusCertGate env)"
  by (simp add: prometheusCertGate_def split: sum.splits)

lemma renderGate_shape: "oneDegraded (renderGate env variant cfg)"
  by (simp add: renderGate_def split: sum.splits)

lemmas gate_shapes =
  apiServerGate_shape licenseReadyGate_shape licenseGate_shape installationGate_shape
  validateManagerTLS_shape certificateGate_shape complianceGate_shape
  prometheusNamespaceGate_shape pullSecretsGate_shape esClusterConfigGate_shape
  esSecretsGate_shape kibanaGate_shape managementClusterGate_shape
  managementClusterConnectionGate_shape exclusiveTopologyGate_shape hubSecretsGate_shape
  authenticationGate_shape keyValidatorGate_shape elasticLicenseGate_shape
  packetCaptureGate_shape prometheusCertGate_shape renderGate_shape

lemma desiredObjectSet_shape: "oneDegraded (desiredObjectSet r env)"
  unfolding desiredObjectSet_def
  by (intro oneDegraded_andThen gate_shapes oneDegraded_Inr
      | simp only: split_paired_all case_prod_conv)+

text \<open>Whatever gate stops the pass, it has called the status manager once and nothing else.\<close>

lemma stop_shape:
  "desiredObjectSet r env = Inl (cs, res, e) \<Longrightarrow> \<exists>reason msg. cs = [SetDegraded reason msg]"
  using desiredObjectSet_shape[of r env] by (auto dest: oneDegraded_Inl)

lemma stopped_no_writes:
  assumes "desiredObjectSet r env = Inl (cs, res, e)"
  shows "statusWrites cs = []" and "appliedComponents cs = []"
  using stop_shape[OF assms] by auto

lemma andThen_Inr: "andThen g f = Inr y \<Longrightarrow> \<exists>x. g = Inr x \<and> f x = Inr y"
  by (cases g) (simp_all add: andThen_def)

lemma both_topologies_stop:
  assumes "GetManagementCluster env = Inr (Some mc)"
    and "GetManagementClusterConnection env = Inr (Some mcc)"
  shows "desiredObjectSet r env \<noteq> Inr components"
proof
  assume "desiredObjectSet r env = Inr components"
  then show False
    using assms unfolding desiredObjectSet_def
    by (auto dest!: andThen_Inr
          simp: managementClusterGate_def managementClusterConnectionGate_def
            exclusiveTopologyGate_def return_defs)
qed


subsection \<open>The apply loop\<close>



lemma statusWrites_append: "statusWrites (xs @ ys) = statusWrites xs @ statusWrites ys"
  by (induction xs rule: statusWrites.induct) simp_all

lemma statusWrites_map: "statusWrites (map Applied cs) = []"
  by (induction cs) simp_all


lemma applyComponents_ok: "applyComponents h cs w = (applied, None, w') \<Longrightarrow> applied = cs"
  by (induction cs arbitrary: w applied) (auto split: prod.splits option.splits)


lemma Reconcile_passed:
  assumes "GetManager env = Inr manager" and "desiredObjectSet r env = Inr components"
  shows "Reconcile r env w =
           (applyAndReport env manager components w)
             \<lparr>calls := OnCRFound # calls (applyAndReport env manager components w)\<rparr>"
  using assms by (simp add: Reconcile_def Let_def)



lemma applyAndReport_writes:
  "statusWrites (calls (applyAndReport env manager components w)) =
     (case applyComponents (CreateOrUpdateOrDelete env) components w of
        (applied, None, w') \<Rightarrow>
          if IsAvailable env w' then [manager\<lparr>StatusState := TigeraStatusReady\<rparr>] else []
      | (applied, Some e, w') \<Rightarrow> [])"
  by (auto simp: applyAndReport_def Let_def statusWrites_append statusWrites_map
           split: prod.splits option.splits)

lemma Reconcile_writes:
  "statusWrites (calls (Reconcile r env w)) =
     (case GetManager env of
        Inl e \<Rightarrow> []
      | Inr manager \<Rightarrow>
          (case desiredObjectSet r env of
             Inl stop \<Rightarrow> []
           | Inr components \<Rightarrow>
               (case applyComponents (CreateOrUpdateOrDelete env) components w of
                  (applied, None, w') \<Rightarrow>
                    if IsAvailable env w' then [manager\<lparr>StatusState := TigeraStatusReady\<rparr>] else []
                | (applied, Some e, w') \<Rightarrow> [])))"
proof (cases "GetManager env")
  case (Inl e)
  then show ?thesis by (simp add: Reconcile_def)
next
  case manager: (Inr manager)
  show ?thesis
  proof (cases "desiredObjectSet r env")
    case (Inl stop)
    obtain cs res e where "stop = (cs, res, e)" by (cases stop) auto
    then show ?thesis
      using manager Inl stopped_no_writes(1)[of r env cs res e] by (simp add: Reconcile_def)
  next
    case (Inr components)
    then show ?thesis
      using manager by (simp add: Reconcile_passed applyAndReport_writes)
  qed
qed

section \<open>The claims\<close>

text \<open>
  Claims about a gate are read in the gate order of the pass: the gate is reached, that is,
  every gate before it let the pass through. The hypotheses of the theorems say so.
\<close>

subsection \<open>C1: a license fetch error\<close>

text \<open>
  C1, as amended. In the license gate of Reconcile every fetch error, a not-found error or
  any other, ends the pass the same way: Degraded is set (reason "License not found" for a
  not-found error, "Error querying license" for any other, the message being the error's
  text), no error is returned, and a re-check after 10 seconds is requested.
\<close>

theorem license_fetch_error_requeues:
  assumes "GetManager env = Inr manager" and "IsAPIServerReady env" and "licenseAPIReady r"
    and "FetchLicenseKey env = Inl e"
  shows "Reconcile r env w =
           \<lparr>calls = [OnCRFound,
                     SetDegraded (if IsNotFound e then ''License not found''
                                  else ''Error querying license'') (ErrorText e)],
            result = requeueAfter (10 * Second), err = None, world = w\<rparr>"
  using assms
  by (simp add: Reconcile_def desiredObjectSet_def andThen_def apiServerGate_def
        licenseReadyGate_def licenseGate_def return_defs)

theorem license_fetch_error_requeues_witness:
  "Reconcile sampleReconciler
     (sampleEnv\<lparr>FetchLicenseKey := Inl (Error True ''licensekeys not found'')\<rparr>) 0 =
     \<lparr>calls = [OnCRFound, SetDegraded ''License not found'' ''licensekeys not found''],
      result = requeueAfter (10 * Second), err = None, world = 0\<rparr>
   \<and> Reconcile sampleReconciler
     (sampleEnv\<lparr>FetchLicenseKey := Inl (Error False ''etcdserver: request timed out'')\<rparr>) 0 =
     \<lparr>calls = [OnCRFound, SetDegraded ''Error querying license'' ''etcdserver: request timed out''],
      result = requeueAfter (10 * Second), err = None, world = 0\<rparr>"
  using license_fetch_error_requeues
    [where env = "sampleEnv\<lparr>FetchLicenseKey := Inl (Error True ''licensekeys not found'')\<rparr>"
       and manager = sampleManager and r = sampleReconciler
       and e = "Error True ''licensekeys not found''" and w = 0]
    license_fetch_error_requeues
    [where env = "sampleEnv\<lparr>FetchLicenseKey := Inl (Error False ''etcdserver: request timed out'')\<rparr>"
       and manager = sampleManager and r = sampleReconciler
       and e = "Error False ''etcdserver: request timed out''" and w = 0]
  by (simp add: GetManager_def sample_defs)

text \<open>
  C1 as stated fails: the license fetch returns an error that is not a not-found error, and
  the pass returns no error; it asks for a re-check after 10 seconds.
\<close>

theorem license_other_error_not_returned:
  "err (Reconcile sampleReconciler
          (sampleEnv\<lparr>FetchLicenseKey := Inl (Error False ''connection refused'')\<rparr>) 0) = None
   \<and> result (Reconcile sampleReconciler
          (sampleEnv\<lparr>FetchLicenseKey := Inl (Error False ''connection refused'')\<rparr>) 0) =
       requeueAfter (10 * Second)"
  by (simp add: Reconcile_def desiredObjectSet_def gate_defs sample_defs)

subsection \<open>C2: an unsupported auth mode\<close>




subsection \<open>C3: hub and spoke together\<close>

text \<open>
  C3. In every cluster state in which both the ManagementCluster and the
  ManagementClusterConnection exist, the pass calls the component handler on nothing,
  writes no status and leaves the cluster state as it was; and when the gates before the
  topology check let the pass through, it sets Degraded with the conflict error's text and
  returns the conflict error.
\<close>

theorem both_topologies_conflict:
  assumes "GetManagementCluster env = Inr (Some mc)"
    and "GetManagementClusterConnection env = Inr (Some mcc)"
  shows "appliedComponents (calls (Reconcile r env w)) = []
       \<and> statusWrites (calls (Reconcile r env w)) = []
       \<and> world (Reconcile r env w) = w
       \<and> (GetManager env = Inr manager \<and> apiServerGate env = Inr () \<and>
          licenseReadyGate r = Inr () \<and> licenseGate env = Inr license \<and>
          installationGate env = Inr (variant, installation) \<and>
          validateManagerTLS env = Inr tlsSecret \<and>
          certificateGate r env installation tlsSecret = Inr (tlsSecret', operatorManaged) \<and>
          complianceGate env license = Inr complianceCert \<and>
          prometheusNamespaceGate env = Inr () \<and>
          pullSecretsGate env installation = Inr pullSecrets \<and>
          esClusterConfigGate env = Inr esConfig \<and> esSecretsGate env = Inr esSecrets \<and>
          kibanaGate env = Inr kibana
          \<longrightarrow> Reconcile r env w =
                \<lparr>calls = [OnCRFound, SetDegraded (ErrorText bothTopologiesError) ''''],
                 result = emptyResult, err = Some bothTopologiesError, world = w\<rparr>)"
proof (intro conjI impI)
  show "appliedComponents (calls (Reconcile r env w)) = []"
    using both_topologies_stop[OF assms, of r]
    by (auto simp: Reconcile_def split: sum.splits dest: stop_shape)
  show "statusWrites (calls (Reconcile r env w)) = []"
    using both_topologies_stop[OF assms, of r]
    by (simp add: Reconcile_writes split: sum.splits)
  show "world (Reconcile r env w) = w"
    using both_topologies_stop[OF assms, of r]
    by (auto simp: Reconcile_def split: sum.splits)
next
  assume "GetManager env = Inr manager \<and> apiServerGate env = Inr () \<and>
          licenseReadyGate r = Inr () \<and> licenseGate env = Inr license \<and>
          installationGate env = Inr (variant, installation) \<and>
          validateManagerTLS env = Inr tlsSecret \<and>
          certificateGate r env installation tlsSecret = Inr (tlsSecret', operatorManaged) \<and>
          complianceGate env license = Inr complianceCert \<and>
          prometheusNamespaceGate env = Inr () \<and>
          pullSecretsGate env installation = Inr pullSecrets \<and>
          esClusterConfigGate env = Inr esConfig \<and> esSecretsGate env = Inr esSecrets \<and>
          kibanaGate env = Inr kibana"
  then show "Reconcile r env w =
                \<lparr>calls = [OnCRFound, SetDegraded (ErrorText bothTopologiesError) ''''],
                 result = emptyResult, err = Some bothTopologiesError, world = w\<rparr>"
    using assms
    by (simp add: Reconcile_def desiredObjectSet_def andThen_def managementClusterGate_def
          managementClusterConnectionGate_def exclusiveTopologyGate_def degradedErr_def)
qed

theorem both_topologies_conflict_witness:
  "Reconcile sampleReconciler
     (sampleEnv\<lparr>GetManagementCluster := Inr (Some ''hub''),
                GetManagementClusterConnection := Inr (Some ''spoke'')\<rparr>) 0 =
     \<lparr>calls = [OnCRFound,
               SetDegraded ''having both a ManagementCluster and a ManagementClusterConnection is not supported''
                 ''''],
      result = emptyResult, err = Some bothTopologiesError, world = 0\<rparr>"
  using both_topologies_conflict
    [where env = "sampleEnv\<lparr>GetManagementCluster := Inr (Some ''hub''),
                            GetManagementClusterConnection := Inr (Some ''spoke'')\<rparr>"
       and mc = "''hub''" and mcc = "''spoke''" and r = sampleReconciler and w = 0
       and manager = sampleManager and license = "''license''"
       and variant = "''TigeraSecureEnterprise''" and installation = sampleInstallation
       and tlsSecret = None and tlsSecret' = None and operatorManaged = False
       and complianceCert = None and pullSecrets = "[]" and esConfig = "''elasticsearch''"
       and esSecrets = "[]" and kibana = "sampleSecret ''kibana''"]
  by (simp add: gate_defs sample_defs bothTopologiesError_def Errorf_def)

subsection \<open>C4: when the status is written\<close>

text \<open>
  C4. The status subresource of the Manager is written, with state Ready, only when the
  pass cleared every gate, the handler returned no error on any component, and the status
  manager reports the controller available: the list of status writes of a pass is the
  instance with state Ready in that case and empty in every other. When the availability
  signal is false after a pass that succeeded in full, the write is skipped, Degraded has
  been cleared, and no error is returned.
\<close>

theorem status_written_only_when_available:
  "statusWrites (calls (Reconcile r env w)) =
     (case GetManager env of
        Inl e \<Rightarrow> []
      | Inr manager \<Rightarrow>
          (case desiredObjectSet r env of
             Inl stop \<Rightarrow> []
           | Inr components \<Rightarrow>
               (case applyComponents (CreateOrUpdateOrDelete env) components w of
                  (applied, None, w') \<Rightarrow>
                    if IsAvailable env w' then [manager\<lparr>StatusState := TigeraStatusReady\<rparr>] else []
                | (applied, Some e, w') \<Rightarrow> [])))
   \<and> ((statusWrites (calls (Reconcile r env w)) \<noteq> []) =
        (\<exists>manager components w'.
            GetManager env = Inr manager \<and> desiredObjectSet r env = Inr components \<and>
            applyComponents (CreateOrUpdateOrDelete env) components w = (components, None, w') \<and>
            IsAvailable env w'))
   \<and> (\<forall>manager components w'.
         GetManager env = Inr manager \<and> desiredObjectSet r env = Inr components \<and>
         applyComponents (CreateOrUpdateOrDelete env) components w = (components, None, w') \<and>
         \<not> IsAvailable env w' \<longrightarrow>
         Reconcile r env w =
           \<lparr>calls = OnCRFound # map Applied components @ [ClearDegraded],
            result = emptyResult, err = None, world = w'\<rparr>)"
proof (intro conjI allI impI)
  show "statusWrites (calls (Reconcile r env w)) =
     (case GetManager env of
        Inl e \<Rightarrow> []
      | Inr manager \<Rightarrow>
          (case desiredObjectSet r env of
             Inl stop \<Rightarrow> []
           | Inr components \<Rightarrow>
               (case applyComponents (CreateOrUpdateOrDelete env) components w of
                  (applied, None, w') \<Rightarrow>
                    if IsAvailable env w' then [manager\<lparr>StatusState := TigeraStatusReady\<rparr>] else []
                | (applied, Some e, w') \<Rightarrow> [])))"
    by (rule Reconcile_writes)
  show "(statusWrites (calls (Reconcile r env w)) \<noteq> []) =
        (\<exists>manager components w'.
            GetManager env = Inr manager \<and> desiredObjectSet r env = Inr components \<and>
            applyComponents (CreateOrUpdateOrDelete env) components w = (components, None, w') \<and>
            IsAvailable env w')"
    unfolding Reconcile_writes
    by (auto split: sum.splits prod.splits option.splits dest: applyComponents_ok)
next
  fix manager components w'
  assume "GetManager env = Inr manager \<and> desiredObjectSet r env = Inr components \<and>
          applyComponents (CreateOrUpdateOrDelete env) components w = (components, None, w') \<and>
          \<not> IsAvailable env w'"
  then show "Reconcile r env w =
           \<lparr>calls = OnCRFound # map Applied components @ [ClearDegraded],
            result = emptyResult, err = None, world = w'\<rparr>"
    by (simp add: Reconcile_passed applyAndReport_def)
qed

theorem status_written_only_when_available_witness:
  "statusWrites (calls (Reconcile sampleReconciler sampleEnv 0)) =
     [\<lparr>SpecAuth = None, StatusState = ''Ready''\<rparr>]
   \<and> statusWrites (calls (Reconcile sampleReconciler (sampleEnv\<lparr>IsAvailable := \<lambda>w. False\<rparr>) 0)) = []"
  using status_written_only_when_available[of sampleReconciler sampleEnv 0]
    status_written_only_when_available
      [of sampleReconciler "sampleEnv\<lparr>IsAvailable := \<lambda>w. False\<rparr>" 0]
  by (simp add: desiredObjectSet_def gate_defs sample_defs TigeraStatusReady_def)

subsection \<open>C5: the order of the applies\<close>



subsection \<open>C6: the synthesized certificate\<close>

text \<open>
  C6. When certificate management is not delegated and there is no TLS secret, the
  certificate stage synthesizes a self-signed secret, marked operator managed. The
  Subject-Alternative-Name list of its certificate is the list of service DNS names for the
  manager's service name, namespace and the configured cluster domain, followed by
  "localhost", and the certificate is valid from the time of synthesis for 825 times 24
  hours (71280000000000000 nanoseconds). In a pass that then clears every gate, the
  passthrough of that secret stands before the rendered component.
\<close>

theorem synthesized_certificate_names_and_validity:
  assumes "CertificateManagement installation = None" and "generateKey env = Inr key"
  shows "certificateGate r env installation None =
           Inr (Some \<lparr>SecretName = ManagerTLSSecretName (names env),
                      Data = [ManagerSecretKeyName (names env) \<mapsto> KeyPEM key,
                              ManagerSecretCertName (names env) \<mapsto>
                                CertPEM \<lparr>DNSNames =
                                           GetServiceDNSNames env (ManagerServiceName (names env))
                                             (ManagerNamespace (names env)) (clusterDomain r) @
                                           [''localhost''],
                                         NotBefore = now env,
                                         NotAfter = now env + 825 * 24 * (3600 * 1000000000),
                                         SelfSigned = True\<rparr>]\<rparr>, True)
       \<and> (\<forall>variant components.
             installationGate env = Inr (variant, installation) \<and>
             validateManagerTLS env = Inr None \<and> desiredObjectSet r env = Inr components \<longrightarrow>
             (\<exists>s component. certificateGate r env installation None = Inr (Some s, True) \<and>
                components = [NewPassthrough s, component]))"
proof (intro conjI allI impI)
  show synthesized: "certificateGate r env installation None =
           Inr (Some \<lparr>SecretName = ManagerTLSSecretName (names env),
                      Data = [ManagerSecretKeyName (names env) \<mapsto> KeyPEM key,
                              ManagerSecretCertName (names env) \<mapsto>
                                CertPEM \<lparr>DNSNames =
                                           GetServiceDNSNames env (ManagerServiceName (names env))
                                             (ManagerNamespace (names env)) (clusterDomain r) @
                                           [''localhost''],
                                         NotBefore = now env,
                                         NotAfter = now env + 825 * 24 * (3600 * 1000000000),
                                         SelfSigned = True\<rparr>]\<rparr>, True)"
    using assms
    by (simp add: certificateGate_def EnsureCertificateSecret_def CreateTLSSecret_def
          Hour_def Second_def)
  fix variant components
  assume "installationGate env = Inr (variant, installation) \<and>
          validateManagerTLS env = Inr None \<and> desiredObjectSet r env = Inr components"
  then show "\<exists>s component. certificateGate r env installation None = Inr (Some s, True) \<and>
                components = [NewPassthrough s, component]"
    unfolding desiredObjectSet_def
    by (auto dest!: andThen_Inr simp: synthesized passthroughComponents_def)
qed

theorem synthesized_certificate_names_and_validity_witness:
  "certificateGate sampleReconciler selfSignedEnv (sampleInstallation\<lparr>CertificateManagement := None\<rparr>) None =
     Inr (Some \<lparr>SecretName = ''manager-tls'',
                Data = [''key'' \<mapsto> KeyPEM ''private key'',
                        ''cert'' \<mapsto>
                          CertPEM \<lparr>DNSNames = [''tigera-manager'',
                                               ''tigera-manager.tigera-manager.svc.cluster.local'',
                                               ''localhost''],
                                   NotBefore = 0,
                                   NotAfter = 71280000000000000,
                                   SelfSigned = True\<rparr>]\<rparr>, True)
   \<and> desiredObjectSet sampleReconciler selfSignedEnv =
       Inr [NewPassthrough
              \<lparr>SecretName = ''manager-tls'',
               Data = [''key'' \<mapsto> KeyPEM ''private key'',
                       ''cert'' \<mapsto>
                         CertPEM \<lparr>DNSNames = [''tigera-manager'',
                                              ''tigera-manager.tigera-manager.svc.cluster.local'',
                                              ''localhost''],
                                  NotBefore = 0,
                                  NotAfter = 71280000000000000,
                                  SelfSigned = True\<rparr>]\<rparr>,
            Rendered ''manager'']"
  using synthesized_certificate_names_and_validity
    [where installation = "sampleInstallation\<lparr>CertificateManagement := None\<rparr>"
       and env = selfSignedEnv and key = "''private key''" and r = sampleReconciler]
  by (simp add: desiredObjectSet_def gate_defs selfSignedEnv_def sample_defs
        EnsureCertificateSecret_def CreateTLSSecret_def Hour_def Second_def)

subsection \<open>C7: the replica count\<close>



subsection \<open>C8: a user-provided certificate under delegation\<close>

text \<open>
  C8. With certificate management delegated and a TLS secret in place (the gates before
  the certificate stage having let the pass through): when the secret's certificate is not
  operator issued the pass sets Degraded with reason "Invalid certificate configuration"
  and returns the error that a user provided secret is not supported; and a pass that gets
  through every gate has a certificate that is operator issued.
\<close>

theorem delegated_user_certificate_rejected:
  assumes "GetManager env = Inr manager" and "IsAPIServerReady env" and "licenseAPIReady r"
    and "FetchLicenseKey env = Inr license" and "GetInstallation env = Inr (variant, installation)"
    and "CertificateManagement installation = Some cm"
    and "ValidateManagerCertPair env = Inr (Some s)"
  shows "(IsCertOperatorIssued env (Data s (ManagerInternalSecretCertName (names env))) = Inr False \<longrightarrow>
            Reconcile r env w =
              \<lparr>calls = [OnCRFound,
                        SetDegraded ''Invalid certificate configuration''
                          (ErrorText (userProvidedSecretError (names env)))],
               result = emptyResult, err = Some (userProvidedSecretError (names env)), world = w\<rparr>)
       \<and> (\<forall>components. desiredObjectSet r env = Inr components \<longrightarrow>
            IsCertOperatorIssued env (Data s (ManagerInternalSecretCertName (names env))) = Inr True)"
proof (intro conjI allI impI)
  assume "IsCertOperatorIssued env (Data s (ManagerInternalSecretCertName (names env))) = Inr False"
  then show "Reconcile r env w =
              \<lparr>calls = [OnCRFound,
                        SetDegraded ''Invalid certificate configuration''
                          (ErrorText (userProvidedSecretError (names env)))],
               result = emptyResult, err = Some (userProvidedSecretError (names env)), world = w\<rparr>"
    using assms
    by (simp add: Reconcile_def desiredObjectSet_def andThen_def apiServerGate_def
          licenseReadyGate_def licenseGate_def installationGate_def validateManagerTLS_def
          certificateGate_def degradedErr_def Let_def)
next
  fix components
  assume "desiredObjectSet r env = Inr components"
  then have "\<exists>x. certificateGate r env installation (Some s) = Inr x"
    using assms unfolding desiredObjectSet_def
    by (auto dest!: andThen_Inr simp: installationGate_def validateManagerTLS_def)
  then show "IsCertOperatorIssued env (Data s (ManagerInternalSecretCertName (names env))) = Inr True"
    using assms(6)
    by (auto simp: certificateGate_def degradedErr_def Let_def split: sum.splits if_splits)
qed

theorem delegated_user_certificate_rejected_witness:
  "Reconcile sampleReconciler
     (sampleEnv\<lparr>ValidateManagerCertPair := Inr (Some (sampleSecret ''manager-tls''))\<rparr>) 0 =
     \<lparr>calls = [OnCRFound,
               SetDegraded ''Invalid certificate configuration''
                 ''user provided secret tigera-manager/manager-tls is not supported when certificate management is enabled''],
      result = emptyResult, err = Some (userProvidedSecretError sampleNames), world = 0\<rparr>
   \<and> desiredObjectSet sampleReconciler failingEnv =
       Inr [NewPassthrough (sampleSecret ''manager-tls''), Rendered ''manager'']
   \<and> IsCertOperatorIssued failingEnv (Data (sampleSecret ''manager-tls'') ''cert'') = Inr True"
  using delegated_user_certificate_rejected
    [where env = "sampleEnv\<lparr>ValidateManagerCertPair := Inr (Some (sampleSecret ''manager-tls''))\<rparr>"
       and manager = sampleManager and r = sampleReconciler and license = "''license''"
       and variant = "''TigeraSecureEnterprise''" and installation = sampleInstallation
       and cm = "''ca''" and s = "sampleSecret ''manager-tls''" and w = 0]
    delegated_user_certificate_rejected
    [where env = failingEnv
       and manager = sampleManager and r = sampleReconciler and license = "''license''"
       and variant = "''TigeraSecureEnterprise''" and installation = sampleInstallation
       and cm = "''ca''" and s = "sampleSecret ''manager-tls''" and w = 0]
  by (simp add: desiredObjectSet_def gate_defs failingEnv_def sample_defs
        userProvidedSecretError_def Errorf_def)

subsection \<open>C9: the license API is not ready\<close>

text \<open>
  C9. When the license-API-ready flag is unset (the Manager resource and the API server
  gate having let the pass through), the pass sets Degraded with reason "Waiting for
  LicenseKeyAPI to be ready" and an empty message, returns no error, and requests a
  re-check after 10 seconds, that is 10000000000 nanoseconds.
\<close>

theorem license_api_not_ready_waits:
  assumes "GetManager env = Inr manager" and "IsAPIServerReady env" and "\<not> licenseAPIReady r"
  shows "Reconcile r env w =
           \<lparr>calls = [OnCRFound, SetDegraded ''Waiting for LicenseKeyAPI to be ready'' ''''],
            result = requeueAfter (10 * Second), err = None, world = w\<rparr>
       \<and> sint (RequeueAfter (result (Reconcile r env w))) = 10 * 1000000000"
  using assms
  by (simp add: Reconcile_def desiredObjectSet_def andThen_def apiServerGate_def
        licenseReadyGate_def return_defs requeueAfter_def Second_def)

theorem license_api_not_ready_waits_witness:
  "Reconcile (sampleReconciler\<lparr>licenseAPIReady := False\<rparr>) sampleEnv 0 =
     \<lparr>calls = [OnCRFound, SetDegraded ''Waiting for LicenseKeyAPI to be ready'' ''''],
      result = \<lparr>Requeue = False, RequeueAfter = 10000000000\<rparr>, err = None, world = 0\<rparr>"
  using license_api_not_ready_waits
    [where env = sampleEnv and manager = sampleManager
       and r = "sampleReconciler\<lparr>licenseAPIReady := False\<rparr>" and w = 0]
  by (simp add: GetManager_def sample_defs requeueAfter_def Second_def)

subsection \<open>C10: no auth configuration\<close>

text \<open>
  C10. For every Manager resource that the client returns with no auth configuration,
  GetManager succeeds with that resource; GetManager rejects a resource exactly when its
  auth configuration is present with a type other than Token.
\<close>

theorem GetManager_accepts_absent_auth:
  assumes "cliGetManager env = Inr manager"
  shows "(SpecAuth manager = None \<longrightarrow> GetManager env = Inr manager)
       \<and> (GetManager env \<noteq> Inr manager) =
           (\<exists>auth. SpecAuth manager = Some auth \<and> Type auth \<noteq> AuthTypeToken)"
  using assms by (auto simp: GetManager_def split: option.splits)

theorem GetManager_accepts_absent_auth_witness:
  "SpecAuth sampleManager = None \<and> GetManager sampleEnv = Inr sampleManager"
  using GetManager_accepts_absent_auth[of sampleEnv sampleManager]
  by (simp add: sample_defs)

end
